theory Spec2Isabelle
  imports Main "HOL-Library.Word"
begin

section \<open>The upload worker (worker/src/index.ts)\<close>

text \<open>
  The worker is one request handler, \<open>fetch\<close>, with three helpers and a process-wide
  rate-limit map. The embedding follows the source function by function.

  Conventions of the embedding:
  \<^item> A JavaScript string is a \<open>string\<close>; a character stands for one code unit below 256.
  \<^item> \<open>null\<close> and \<open>undefined\<close> are \<open>None\<close>. The environment bindings
    \<open>UPLOAD_API_KEY\<close> and \<open>ALLOWED_ORIGIN\<close> may be unset, as the source guards them with
    \<open>!\<close> and \<open>?.\<close>; \<open>R2_PUBLIC_URL\<close> is read unguarded, at its declared type.
    Where the source compares with \<open>!==\<close>, one side is \<open>string | null\<close> and the other is
    known to be a non-empty string when the comparison is reached, so that equality of
    options is the same test.
  \<^item> \<open>Date.now()\<close> and \<open>crypto.randomUUID()\<close> are inputs of a run (record \<open>Platform\<close>):
    the clock is read once in the limiter and once for the storage key, and the two
    readings are separate fields. Times are integers (epoch milliseconds).
  \<^item> The module-level \<open>rateLimitMap\<close> is passed in and returned.
  \<^item> A \<open>Response\<close> record holds the status, the headers and the body the handler hands
    to the \<open>Response\<close> constructor. \<open>fetch\<close> computes this record on every path;
    \<open>new_Response\<close> is the constructor's check of the header values, and \<open>fetch_result\<close>
    is the handler with the constructor applied: a response or a \<open>TypeError\<close>.
  \<^item> The bucket's \<open>put\<close> is a function of the environment that says whether the write is
    accepted; the file's bytes are at hand (\<open>arrayBuffer\<close> does not fail). Logging with
    \<open>console.error\<close> has no effect on the response and is left out.
\<close>

subsection \<open>Data\<close>

type_synonym bytes = "8 word list"

text \<open>The R2 bucket binding: \<open>put key data contentType\<close>; \<open>Some e\<close> is a rejection
  with error text \<open>e\<close>, \<open>None\<close> is success.\<close>

type_synonym R2Bucket = "string \<Rightarrow> bytes \<Rightarrow> string \<Rightarrow> string option"

record Env =
  IMAGE_BUCKET :: R2Bucket
  UPLOAD_API_KEY :: "string option"
  ALLOWED_ORIGIN :: "string option"
  R2_PUBLIC_URL :: string

text \<open>A \<open>File\<close> of the form data: its declared type and its bytes.\<close>

record File =
  type :: string
  arrayBuffer :: bytes

datatype FormDataEntryValue = FormString string | FormFile File

text \<open>
  A request: \<open>headers r n\<close> is what \<open>request.headers.get(n)\<close> returns;
  \<open>formData r\<close> is the outcome of \<open>request.formData()\<close>: \<open>None\<close> when it rejects,
  otherwise the parts of the form in order.
\<close>

record Request =
  req_method :: string
  headers :: "string \<rightharpoonup> string"
  formData :: "(string \<times> FormDataEntryValue) list option"

record Response =
  status :: nat
  resp_headers :: "(string \<times> string) list"
  body :: "string option"

record Platform =
  now_limiter :: int
  now_key :: int
  randomUUID :: string

record RateEntry =
  count :: int
  windowStart :: int

type_synonym RateLimitMap = "string \<rightharpoonup> RateEntry"

subsection \<open>Rate limiter\<close>

definition RATE_LIMIT_MAX :: int where
  "RATE_LIMIT_MAX = 20"

definition RATE_LIMIT_WINDOW_MS :: int where
  "RATE_LIMIT_WINDOW_MS = 60000"

definition isRateLimited :: "string \<Rightarrow> int \<Rightarrow> RateLimitMap \<Rightarrow> bool \<times> RateLimitMap" where
  "isRateLimited ip now rateLimitMap =
     (case rateLimitMap ip of
        None \<Rightarrow> (False, rateLimitMap(ip \<mapsto> \<lparr>count = 1, windowStart = now\<rparr>))
      | Some entry \<Rightarrow>
          if now - windowStart entry > RATE_LIMIT_WINDOW_MS
          then (False, rateLimitMap(ip \<mapsto> \<lparr>count = 1, windowStart = now\<rparr>))
          else if count entry \<ge> RATE_LIMIT_MAX then (True, rateLimitMap)
          else (False, rateLimitMap(ip \<mapsto> entry\<lparr>count := count entry + 1\<rparr>)))"

subsection \<open>Strings\<close>

text \<open>\<open>String.prototype.trim\<close>: white space and line terminators, among the code units
  below 256: TAB, LF, VT, FF, CR, SP, NBSP.\<close>

definition isWhiteSpace :: "char \<Rightarrow> bool" where
  "isWhiteSpace c \<longleftrightarrow>
     c \<in> {CHR 0x09, CHR 0x0A, CHR 0x0B, CHR 0x0C, CHR 0x0D, CHR 0x20, CHR 0xA0}"

definition trim :: "string \<Rightarrow> string" where
  "trim s = rev (dropWhile isWhiteSpace (rev (dropWhile isWhiteSpace s)))"

text \<open>Truthiness of a value of type \<open>string | undefined\<close>.\<close>

fun truthy :: "string option \<Rightarrow> bool" where
  "truthy None = False"
| "truthy (Some s) = (s \<noteq> [])"

text \<open>Decimal rendering of an integer, as a template literal renders \<open>Date.now()\<close>.
  \<open>digit_char\<close> is only applied to numbers below 10.\<close>

definition digit_char :: "nat \<Rightarrow> char" where
  "digit_char d = ''0123456789'' ! d"

fun nat_toString :: "nat \<Rightarrow> string" where
  "nat_toString n = (if n < 10 then [digit_char n] else nat_toString (n div 10) @ [digit_char (n mod 10)])"

definition Number_toString :: "int \<Rightarrow> string" where
  "Number_toString i = (if i < 0 then CHR ''-'' # nat_toString (nat (- i)) else nat_toString (nat i))"

text \<open>\<open>s.replace(/\/$/, '')\<close>: one slash at the end of the string is removed.\<close>

definition replace_trailing_slash :: "string \<Rightarrow> string" where
  "replace_trailing_slash s = (if s \<noteq> [] \<and> last s = CHR ''/'' then butlast s else s)"

subsection \<open>JSON.stringify on the bodies the handler builds\<close>

datatype json = JString string | JObject "(string \<times> json) list"

text \<open>
  \<open>QuoteJSONString\<close>: the two-character escapes for backspace, tab, line feed, form feed,
  carriage return, the double quote and the backslash; a six-character escape with
  lower-case hexadecimal digits for the other control characters (\<open>hex_char\<close> is only
  applied to numbers below 16); every other character as it is.
\<close>

definition hex_char :: "nat \<Rightarrow> char" where
  "hex_char d = ''0123456789abcdef'' ! d"

definition quote_char :: "char \<Rightarrow> string" where
  "quote_char c =
     (if c = CHR 0x08 then [CHR 0x5C, CHR ''b'']
      else if c = CHR 0x09 then [CHR 0x5C, CHR ''t'']
      else if c = CHR 0x0A then [CHR 0x5C, CHR ''n'']
      else if c = CHR 0x0C then [CHR 0x5C, CHR ''f'']
      else if c = CHR 0x0D then [CHR 0x5C, CHR ''r'']
      else if c = CHR 0x22 then [CHR 0x5C, CHR 0x22]
      else if c = CHR 0x5C then [CHR 0x5C, CHR 0x5C]
      else if of_char c < (32::nat)
        then [CHR 0x5C, CHR ''u'', CHR ''0'', CHR ''0'',
              hex_char (of_char c div 16), hex_char (of_char c mod 16)]
      else [c])"

definition quoteJSONString :: "string \<Rightarrow> string" where
  "quoteJSONString s = [CHR 0x22] @ concat (map quote_char s) @ [CHR 0x22]"

fun join :: "string \<Rightarrow> string list \<Rightarrow> string" where
  "join sep [] = []"
| "join sep [x] = x"
| "join sep (x # y # ys) = x @ sep @ join sep (y # ys)"

fun JSON_stringify :: "json \<Rightarrow> string" where
  "JSON_stringify (JString s) = quoteJSONString s"
| "JSON_stringify (JObject kvs) =
     ''{'' @ join '','' (map (\<lambda>(k, v). quoteJSONString k @ '':'' @ JSON_stringify v) kvs) @ ''}''"

subsection \<open>CORS helpers\<close>

text \<open>\<open>a ?? b\<close>.\<close>

fun nullish :: "'a option \<Rightarrow> 'a \<Rightarrow> 'a" where
  "nullish None d = d"
| "nullish (Some a) d = a"

definition getAllowedOrigin :: "Env \<Rightarrow> string option \<Rightarrow> string" where
  "getAllowedOrigin env requestOrigin =
     (let configured = map_option trim (ALLOWED_ORIGIN env) in
      case configured of
        Some c \<Rightarrow> if c \<noteq> [] then c else nullish requestOrigin ''*''
      | None \<Rightarrow> nullish requestOrigin ''*'')"

definition buildCorsHeaders :: "Env \<Rightarrow> string option \<Rightarrow> (string \<times> string) list" where
  "buildCorsHeaders env requestOrigin =
     [(''Access-Control-Allow-Origin'', getAllowedOrigin env requestOrigin),
      (''Access-Control-Allow-Methods'', ''POST, OPTIONS''),
      (''Access-Control-Allow-Headers'', ''Content-Type, X-Upload-Api-Key''),
      (''Access-Control-Max-Age'', ''86400'')]"

definition jsonResponse :: "json \<Rightarrow> nat \<Rightarrow> (string \<times> string) list \<Rightarrow> Response" where
  "jsonResponse b st extraHeaders =
     \<lparr>status = st,
      resp_headers = (''Content-Type'', ''application/json'') # extraHeaders,
      body = Some (JSON_stringify b)\<rparr>"

subsection \<open>The allow-list of MIME types\<close>

definition ALLOWED_TYPES :: "(string \<times> string) list" where
  "ALLOWED_TYPES =
     [(''image/jpeg'', ''jpg''),
      (''image/png'', ''png''),
      (''image/gif'', ''gif''),
      (''image/webp'', ''webp''),
      (''image/svg+xml'', ''svg'')]"

text \<open>
  \<open>ALLOWED_TYPES\<close> is an object literal, and \<open>ALLOWED_TYPES[k]\<close> is a property read:
  it yields the object's own property \<open>k\<close>, else the property \<open>k\<close> inherited from
  \<open>Object.prototype\<close>, else \<open>undefined\<close>. The inherited members are functions, and the
  accessor \<open>__proto__\<close>, which yields \<open>Object.prototype\<close> itself.
\<close>

datatype PropertyValue = Undefined | OwnString string | Inherited string

definition Object_prototype_keys :: "string list" where
  "Object_prototype_keys =
     [''constructor'', ''hasOwnProperty'', ''isPrototypeOf'', ''propertyIsEnumerable'',
      ''toLocaleString'', ''toString'', ''valueOf'', ''__proto__'',
      ''__defineGetter__'', ''__defineSetter__'', ''__lookupGetter__'', ''__lookupSetter__'']"

definition property_read :: "(string \<times> string) list \<Rightarrow> string \<Rightarrow> PropertyValue" where
  "property_read obj k =
     (case map_of obj k of
        Some v \<Rightarrow> OwnString v
      | None \<Rightarrow> if k \<in> set Object_prototype_keys then Inherited k else Undefined)"

text \<open>Truthiness of the value read, and its rendering in a template literal.\<close>

fun truthy_value :: "PropertyValue \<Rightarrow> bool" where
  "truthy_value Undefined = False"
| "truthy_value (OwnString s) = (s \<noteq> [])"
| "truthy_value (Inherited k) = True"

fun template_string :: "PropertyValue \<Rightarrow> string" where
  "template_string Undefined = ''undefined''"
| "template_string (OwnString s) = s"
| "template_string (Inherited k) =
     (if k = ''__proto__'' then ''[object Object]''
      else if k = ''constructor'' then ''function Object() { [native code] }''
      else ''function '' @ k @ ''() { [native code] }'')"

text \<open>\<open>Object.keys\<close>: the own keys in insertion order.\<close>

definition Object_keys :: "(string \<times> string) list \<Rightarrow> string list" where
  "Object_keys obj = map fst obj"

subsection \<open>Main handler\<close>

definition error_json :: "string \<Rightarrow> json" where
  "error_json msg = JObject [(''error'', JString msg)]"

definition url_json :: "string \<Rightarrow> json" where
  "url_json u = JObject [(''url'', JString u)]"

text \<open>
  The \<open>try\<close> block of the parsing stage: it ends with \<open>file\<close> assigned (\<open>Some\<close>), or in the
  \<open>catch\<close> (\<open>None\<close>): when \<open>request.formData()\<close> rejects, and when \<open>formData.get('file')\<close>,
  the first part named \<open>file\<close>, is \<open>null\<close> or a string.
\<close>

definition parse_file :: "Request \<Rightarrow> File option" where
  "parse_file request =
     (case formData request of
        None \<Rightarrow> None
      | Some parts \<Rightarrow>
          (case map_of parts ''file'' of
             None \<Rightarrow> None
           | Some (FormString s) \<Rightarrow> None
           | Some (FormFile f) \<Rightarrow> Some f))"

definition fetch :: "Env \<Rightarrow> Platform \<Rightarrow> Request \<Rightarrow> RateLimitMap \<Rightarrow> Response \<times> RateLimitMap" where
  \<open>fetch env pf request rateLimitMap =
     (let requestOrigin = headers request ''Origin'';
          corsHeaders = buildCorsHeaders env requestOrigin
      in
      if req_method request = ''OPTIONS''
      then (\<lparr>status = 204, resp_headers = corsHeaders, body = None\<rparr>, rateLimitMap)
      else if req_method request \<noteq> ''POST''
      then (jsonResponse (error_json ''Method not allowed'') 405 corsHeaders, rateLimitMap)
      else
        let configuredOrigin = map_option trim (ALLOWED_ORIGIN env) in
        if truthy configuredOrigin \<and> requestOrigin \<noteq> configuredOrigin
        then (jsonResponse (error_json ''Origin not allowed'') 403 corsHeaders, rateLimitMap)
        else
          let apiKey = headers request ''X-Upload-Api-Key'' in
          if \<not> truthy (UPLOAD_API_KEY env) \<or> apiKey \<noteq> UPLOAD_API_KEY env
          then (jsonResponse (error_json ''Unauthorized'') 401 corsHeaders, rateLimitMap)
          else
            let ip = nullish (headers request ''CF-Connecting-IP'') ''unknown'';
                (limited, rateLimitMap') = isRateLimited ip (now_limiter pf) rateLimitMap
            in
            if limited
            then (jsonResponse
                    (error_json ''Too many requests. Please wait a minute and try again.'')
                    429 corsHeaders, rateLimitMap')
            else
              (case parse_file request of
                 None \<Rightarrow>
                   (jsonResponse
                      (error_json ''Invalid request. Expected multipart/form-data with a "file" field.'')
                      400 corsHeaders, rateLimitMap')
               | Some file \<Rightarrow>
                   let ext = property_read ALLOWED_TYPES (type file) in
                   if \<not> truthy_value ext
                   then (jsonResponse
                           (error_json (''Unsupported file type "'' @ type file @ ''". Allowed types: ''
                                        @ join '', '' (Object_keys ALLOWED_TYPES)))
                           400 corsHeaders, rateLimitMap')
                   else
                     let key = ''uploads/'' @ Number_toString (now_key pf) @ ''-'' @ randomUUID pf
                               @ ''.'' @ template_string ext
                     in
                     (case IMAGE_BUCKET env key (arrayBuffer file) (type file) of
                        Some err \<Rightarrow>
                          (jsonResponse (error_json ''Upload to storage failed. Please try again.'')
                             502 corsHeaders, rateLimitMap')
                      | None \<Rightarrow>
                          let publicBaseUrl = replace_trailing_slash (R2_PUBLIC_URL env) in
                          (jsonResponse (url_json (publicBaseUrl @ ''/'' @ key)) 200 corsHeaders,
                           rateLimitMap'))))\<close>

subsection \<open>The Response constructor\<close>

text \<open>
  Every exit of the handler is \<open>return new Response(...)\<close>, directly for the 204 and
  through \<open>jsonResponse\<close> otherwise, with nothing between the construction and the
  return. \<open>fetch\<close> above gives the status, the headers and the body that reach the
  constructor. The constructor itself fills a \<open>Headers\<close> object: each value has its
  leading and trailing HTTP white space (TAB, LF, CR, SP) removed and must then hold no
  NUL, LF or CR, or the constructor throws a \<open>TypeError\<close>, which nothing in the handler
  catches. \<open>fetch_result\<close> is the two together: what an invocation of the handler yields,
  a response or the error, and the rate-limit map it leaves.
\<close>

datatype Error = TypeError

definition isHttpWhitespace :: "char \<Rightarrow> bool" where
  "isHttpWhitespace c \<longleftrightarrow> c \<in> {CHR 0x09, CHR 0x0A, CHR 0x0D, CHR 0x20}"

definition normalize_header_value :: "string \<Rightarrow> string" where
  "normalize_header_value v =
     rev (dropWhile isHttpWhitespace (rev (dropWhile isHttpWhitespace v)))"

definition valid_header_value :: "string \<Rightarrow> bool" where
  "valid_header_value v \<longleftrightarrow>
     CHR 0x00 \<notin> set v \<and> CHR 0x0A \<notin> set v \<and> CHR 0x0D \<notin> set v"

definition new_Response :: "Response \<Rightarrow> Error + Response" where
  "new_Response init =
     (let hs = map (\<lambda>(n, v). (n, normalize_header_value v)) (resp_headers init) in
      if list_all (\<lambda>(n, v). valid_header_value v) hs
      then Inr (init\<lparr>resp_headers := hs\<rparr>)
      else Inl TypeError)"

definition fetch_result :: "Env \<Rightarrow> Platform \<Rightarrow> Request \<Rightarrow> RateLimitMap \<Rightarrow> (Error + Response) \<times> RateLimitMap" where
  "fetch_result env pf request rateLimitMap =
     (let (init, rateLimitMap') = fetch env pf request rateLimitMap
      in (new_Response init, rateLimitMap'))"

subsection \<open>Stages of the handler, as predicates on a request\<close>

text \<open>The guards of \<open>fetch\<close> before the limiter, named for the statements below.\<close>

definition origin_allowed :: "Env \<Rightarrow> Request \<Rightarrow> bool" where
  "origin_allowed env request \<longleftrightarrow>
     \<not> (truthy (map_option trim (ALLOWED_ORIGIN env))
        \<and> headers request ''Origin'' \<noteq> map_option trim (ALLOWED_ORIGIN env))"

definition key_accepted :: "Env \<Rightarrow> Request \<Rightarrow> bool" where
  "key_accepted env request \<longleftrightarrow>
     \<not> (\<not> truthy (UPLOAD_API_KEY env)
        \<or> headers request ''X-Upload-Api-Key'' \<noteq> UPLOAD_API_KEY env)"

definition reaches_limiter :: "Env \<Rightarrow> Request \<Rightarrow> bool" where
  "reaches_limiter env request \<longleftrightarrow>
     req_method request = ''POST'' \<and> origin_allowed env request \<and> key_accepted env request"

definition client_id :: "Request \<Rightarrow> string" where
  "client_id request = nullish (headers request ''CF-Connecting-IP'') ''unknown''"

text \<open>The value of the response header \<open>n\<close>.\<close>

definition header :: "Response \<Rightarrow> string \<Rightarrow> string option" where
  "header r n = map_of (resp_headers r) n"

subsection \<open>A run of the instance\<close>

text \<open>
  The instance answers requests one after the other, each on the rate-limit map the
  one before left. A request comes with the platform's readings for its run.
\<close>

fun serve :: "Env \<Rightarrow> (Platform \<times> Request) list \<Rightarrow> RateLimitMap \<Rightarrow> Response list \<times> RateLimitMap" where
  "serve env [] m = ([], m)"
| "serve env ((pf, request) # rest) m =
     (let (r, m') = fetch env pf request m;
          (rs, m'') = serve env rest m'
      in (r # rs, m''))"

text \<open>The requests of a run that reach the limiter under the client identifier \<open>ip\<close>.\<close>

definition counted :: "Env \<Rightarrow> string \<Rightarrow> Platform \<times> Request \<Rightarrow> bool" where
  "counted env ip ev \<longleftrightarrow> reaches_limiter env (snd ev) \<and> client_id (snd ev) = ip"

subsection \<open>Sample inputs\<close>

definition bucket_accepting :: R2Bucket where
  "bucket_accepting key bs contentType = None"

definition bucket_rejecting :: "string \<Rightarrow> R2Bucket" where
  "bucket_rejecting e key bs contentType = Some e"

definition env_open :: Env where
  "env_open = \<lparr>IMAGE_BUCKET = bucket_accepting, UPLOAD_API_KEY = Some ''s3cret'',
                ALLOWED_ORIGIN = None, R2_PUBLIC_URL = ''https://pub-abc123.r2.dev''\<rparr>"

definition env_restricted :: Env where
  "env_restricted = \<lparr>IMAGE_BUCKET = bucket_accepting, UPLOAD_API_KEY = Some ''s3cret'',
                      ALLOWED_ORIGIN = Some '' https://a.example '',
                      R2_PUBLIC_URL = ''https://pub-abc123.r2.dev''\<rparr>"

definition platform_sample :: Platform where
  "platform_sample = \<lparr>now_limiter = 1700000000000, now_key = 1700000000000,
                       randomUUID = ''123e4567-e89b-12d3-a456-426614174000''\<rparr>"

definition file_of_type :: "string \<Rightarrow> File" where
  "file_of_type t = \<lparr>type = t, arrayBuffer = [137, 80, 78, 71]\<rparr>"

text \<open>A POST with the right key and one file part of the given type.\<close>

definition upload_request :: "string \<Rightarrow> Request" where
  "upload_request t =
     \<lparr>req_method = ''POST'',
      headers = [''X-Upload-Api-Key'' \<mapsto> ''s3cret'', ''CF-Connecting-IP'' \<mapsto> ''203.0.113.7''],
      formData = Some [(''file'', FormFile (file_of_type t))]\<rparr>"

text \<open>A POST from a foreign origin, without a key.\<close>

definition foreign_request :: Request where
  "foreign_request =
     \<lparr>req_method = ''POST'', headers = [''Origin'' \<mapsto> ''https://b.example''], formData = None\<rparr>"

text \<open>A POST without a key and without an origin.\<close>

definition anonymous_request :: Request where
  "anonymous_request = \<lparr>req_method = ''POST'', headers = Map.empty, formData = None\<rparr>"

text \<open>A configured origin with a line feed inside.\<close>

definition origin_with_line_feed :: string where
  "origin_with_line_feed = ''https://a.example'' @ [CHR 0x0A] @ ''X-Extra: 1''"

definition env_line_feed :: Env where
  "env_line_feed = \<lparr>IMAGE_BUCKET = bucket_accepting, UPLOAD_API_KEY = Some ''s3cret'',
                     ALLOWED_ORIGIN = Some origin_with_line_feed,
                     R2_PUBLIC_URL = ''https://pub-abc123.r2.dev''\<rparr>"


definition preflight_request :: Request where
  "preflight_request =
     \<lparr>req_method = ''OPTIONS'', headers = [''Origin'' \<mapsto> ''https://b.example''], formData = None\<rparr>"

definition env_double_slash :: Env where
  "env_double_slash = \<lparr>IMAGE_BUCKET = bucket_accepting, UPLOAD_API_KEY = Some ''s3cret'',
                        ALLOWED_ORIGIN = None, R2_PUBLIC_URL = ''https://pub-abc123.r2.dev//''\<rparr>"

definition env_failing_storage :: Env where
  "env_failing_storage =
     \<lparr>IMAGE_BUCKET = bucket_rejecting ''R2 internal error 10001: bucket quota exceeded'',
      UPLOAD_API_KEY = Some ''s3cret'', ALLOWED_ORIGIN = None,
      R2_PUBLIC_URL = ''https://pub-abc123.r2.dev''\<rparr>"

text \<open>A POST with the right key and two parts named \<open>file\<close>, both files.\<close>

definition two_files_request :: Request where
  "two_files_request =
     \<lparr>req_method = ''POST'',
      headers = [''X-Upload-Api-Key'' \<mapsto> ''s3cret'', ''CF-Connecting-IP'' \<mapsto> ''203.0.113.7''],
      formData = Some [(''file'', FormFile (file_of_type ''image/png'')),
                       (''file'', FormFile (file_of_type ''image/gif''))]\<rparr>"

text \<open>A POST with the right key whose part named \<open>file\<close> is a text field.\<close>

definition text_field_request :: Request where
  "text_field_request =
     \<lparr>req_method = ''POST'',
      headers = [''X-Upload-Api-Key'' \<mapsto> ''s3cret'', ''CF-Connecting-IP'' \<mapsto> ''203.0.113.7''],
      formData = Some [(''file'', FormString ''photo.png'')]\<rparr>"

subsection \<open>The specification's reading of the public base URL\<close>

text \<open>
  The specification's words, not the source's: "the configured public base URL with any
  trailing slash stripped", so that joining it to the key duplicates no separator.
\<close>

definition spec_public_base :: "string \<Rightarrow> string" where
  "spec_public_base s = rev (dropWhile (\<lambda>c. c = CHR ''/'') (rev s))"

section \<open>Properties\<close>

subsection \<open>The handler, stage by stage\<close>

text \<open>One equation for each way through \<open>fetch\<close>, in the order of the source.\<close>

lemma stage_preflight:
  "req_method request = ''OPTIONS'' \<Longrightarrow>
   fetch env pf request m =
     (\<lparr>status = 204, resp_headers = buildCorsHeaders env (headers request ''Origin''), body = None\<rparr>, m)"
  by (simp add: fetch_def)

lemma stage_method_not_allowed:
  "req_method request \<noteq> ''OPTIONS'' \<Longrightarrow> req_method request \<noteq> ''POST'' \<Longrightarrow>
   fetch env pf request m =
     (jsonResponse (error_json ''Method not allowed'') 405
        (buildCorsHeaders env (headers request ''Origin'')), m)"
  by (simp add: fetch_def)

lemma stage_origin_not_allowed:
  "req_method request = ''POST'' \<Longrightarrow> \<not> origin_allowed env request \<Longrightarrow>
   fetch env pf request m =
     (jsonResponse (error_json ''Origin not allowed'') 403
        (buildCorsHeaders env (headers request ''Origin'')), m)"
  by (simp add: fetch_def Let_def origin_allowed_def)

lemma stage_unauthorized:
  "req_method request = ''POST'' \<Longrightarrow> origin_allowed env request \<Longrightarrow> \<not> key_accepted env request \<Longrightarrow>
   fetch env pf request m =
     (jsonResponse (error_json ''Unauthorized'') 401
        (buildCorsHeaders env (headers request ''Origin'')), m)"
  by (auto simp add: fetch_def Let_def origin_allowed_def key_accepted_def)

text \<open>From the limiter on: the rest of the pipeline, given the limiter's verdict.\<close>

lemma stage_limited:
  assumes "reaches_limiter env request"
      and "isRateLimited (client_id request) (now_limiter pf) m = (True, m')"
  shows "fetch env pf request m =
     (jsonResponse (error_json ''Too many requests. Please wait a minute and try again.'') 429
        (buildCorsHeaders env (headers request ''Origin'')), m')"
  using assms
  by (auto simp add: fetch_def Let_def reaches_limiter_def origin_allowed_def key_accepted_def client_id_def)

lemma stage_unparsed:
  assumes "reaches_limiter env request"
      and "isRateLimited (client_id request) (now_limiter pf) m = (False, m')"
      and "parse_file request = None"
  shows \<open>fetch env pf request m =
     (jsonResponse (error_json ''Invalid request. Expected multipart/form-data with a "file" field.'') 400
        (buildCorsHeaders env (headers request ''Origin'')), m')\<close>
  using assms
  by (auto simp add: fetch_def Let_def reaches_limiter_def origin_allowed_def key_accepted_def client_id_def)

lemma stage_unsupported:
  assumes "reaches_limiter env request"
      and "isRateLimited (client_id request) (now_limiter pf) m = (False, m')"
      and "parse_file request = Some file"
      and "\<not> truthy_value (property_read ALLOWED_TYPES (type file))"
  shows \<open>fetch env pf request m =
     (jsonResponse
        (error_json (''Unsupported file type "'' @ type file @ ''". Allowed types: ''
                     @ join '', '' (Object_keys ALLOWED_TYPES))) 400
        (buildCorsHeaders env (headers request ''Origin'')), m')\<close>
  using assms
  by (auto simp add: fetch_def Let_def reaches_limiter_def origin_allowed_def key_accepted_def client_id_def)

lemma stage_storage_failed:
  assumes "reaches_limiter env request"
      and "isRateLimited (client_id request) (now_limiter pf) m = (False, m')"
      and "parse_file request = Some file"
      and "truthy_value (property_read ALLOWED_TYPES (type file))"
      and "IMAGE_BUCKET env
             (''uploads/'' @ Number_toString (now_key pf) @ ''-'' @ randomUUID pf @ ''.''
                @ template_string (property_read ALLOWED_TYPES (type file)))
             (arrayBuffer file) (type file) = Some err"
  shows "fetch env pf request m =
     (jsonResponse (error_json ''Upload to storage failed. Please try again.'') 502
        (buildCorsHeaders env (headers request ''Origin'')), m')"
  using assms
  by (auto simp add: fetch_def Let_def reaches_limiter_def origin_allowed_def key_accepted_def client_id_def)

lemma stage_stored:
  assumes "reaches_limiter env request"
      and "isRateLimited (client_id request) (now_limiter pf) m = (False, m')"
      and "parse_file request = Some file"
      and "truthy_value (property_read ALLOWED_TYPES (type file))"
      and "IMAGE_BUCKET env
             (''uploads/'' @ Number_toString (now_key pf) @ ''-'' @ randomUUID pf @ ''.''
                @ template_string (property_read ALLOWED_TYPES (type file)))
             (arrayBuffer file) (type file) = None"
  shows "fetch env pf request m =
     (jsonResponse
        (url_json (replace_trailing_slash (R2_PUBLIC_URL env) @ ''/'' @
           (''uploads/'' @ Number_toString (now_key pf) @ ''-'' @ randomUUID pf @ ''.''
              @ template_string (property_read ALLOWED_TYPES (type file))))) 200
        (buildCorsHeaders env (headers request ''Origin'')), m')"
  using assms
  by (auto simp add: fetch_def Let_def reaches_limiter_def origin_allowed_def key_accepted_def client_id_def)

lemma fetch_cases:
  "fst (fetch env pf request m)
       = \<lparr>status = 204, resp_headers = buildCorsHeaders env (headers request ''Origin''), body = None\<rparr>
   \<or> (\<exists>msg st. st \<in> {405, 403, 401, 429, 400, 502} \<and>
         fst (fetch env pf request m)
           = jsonResponse (error_json msg) st (buildCorsHeaders env (headers request ''Origin'')))
   \<or> (\<exists>u. fst (fetch env pf request m)
           = jsonResponse (url_json u) 200 (buildCorsHeaders env (headers request ''Origin'')))"
proof (cases "reaches_limiter env request")
  case False
  then consider "req_method request = ''OPTIONS''"
    | "req_method request \<noteq> ''OPTIONS''" "req_method request \<noteq> ''POST''"
    | "req_method request = ''POST''" "\<not> origin_allowed env request"
    | "req_method request = ''POST''" "origin_allowed env request" "\<not> key_accepted env request"
    by (auto simp add: reaches_limiter_def)
  then show ?thesis
  proof cases
    case 1 then show ?thesis by (simp add: stage_preflight)
  next
    case 2 then show ?thesis by (simp add: stage_method_not_allowed) blast
  next
    case 3 then show ?thesis by (simp add: stage_origin_not_allowed) blast
  next
    case 4 then show ?thesis by (simp add: stage_unauthorized) blast
  qed
next
  case True
  obtain limited m' where l: "isRateLimited (client_id request) (now_limiter pf) m = (limited, m')"
    by (cases "isRateLimited (client_id request) (now_limiter pf) m")
  show ?thesis
  proof (cases limited)
    case True
    with \<open>reaches_limiter env request\<close> l show ?thesis by (simp add: stage_limited) blast
  next
    case nl: False
    show ?thesis
    proof (cases "parse_file request")
      case None
      with \<open>reaches_limiter env request\<close> l nl show ?thesis by (simp add: stage_unparsed) blast
    next
      case (Some f)
      show ?thesis
      proof (cases "truthy_value (property_read ALLOWED_TYPES (type f))")
        case False
        with \<open>reaches_limiter env request\<close> l nl Some show ?thesis
          by (simp add: stage_unsupported) blast
      next
        case tv: True
        show ?thesis
        proof (cases "IMAGE_BUCKET env
             (''uploads/'' @ Number_toString (now_key pf) @ ''-'' @ randomUUID pf @ ''.''
                @ template_string (property_read ALLOWED_TYPES (type f)))
             (arrayBuffer f) (type f)")
          case None
          with \<open>reaches_limiter env request\<close> l nl Some tv show ?thesis
            by (simp add: stage_stored) blast
        next
          case (Some err)
          with \<open>reaches_limiter env request\<close> l nl \<open>parse_file request = Some f\<close> tv show ?thesis
            by (simp add: stage_storage_failed) blast
        qed
      qed
    qed
  qed
qed


lemma fetch_headers:
  "resp_headers (fst (fetch env pf request m)) = buildCorsHeaders env (headers request ''Origin'')
   \<or> resp_headers (fst (fetch env pf request m)) =
       (''Content-Type'', ''application/json'') # buildCorsHeaders env (headers request ''Origin'')"
  using fetch_cases [of env pf request m]
  by (auto simp add: jsonResponse_def)

lemma header_allow_origin:
  "header (fst (fetch env pf request m)) ''Access-Control-Allow-Origin''
     = Some (getAllowedOrigin env (headers request ''Origin''))"
  using fetch_headers [of env pf request m]
  by (auto simp add: header_def buildCorsHeaders_def)

lemma stringify_error:
  \<open>JSON_stringify (error_json msg) = ''{"error":'' @ quoteJSONString msg @ ''}''\<close>
  by (simp add: error_json_def quoteJSONString_def quote_char_def)

lemma stringify_url:
  \<open>JSON_stringify (url_json u) = ''{"url":'' @ quoteJSONString u @ ''}''\<close>
  by (simp add: url_json_def quoteJSONString_def quote_char_def)

lemma trim_sample: "trim '' https://a.example '' = ''https://a.example''"
  by (simp add: trim_def isWhiteSpace_def)

lemma origin_allowed_iff:
  "origin_allowed env request \<longleftrightarrow>
     ALLOWED_ORIGIN env = None
     \<or> (\<exists>s. ALLOWED_ORIGIN env = Some s
            \<and> (trim s = [] \<or> headers request ''Origin'' = Some (trim s)))"
  by (cases "ALLOWED_ORIGIN env") (auto simp add: origin_allowed_def)


subsection \<open>The limiter inside the handler\<close>

lemma fetch_state:
  "snd (fetch env pf request m) =
     (if reaches_limiter env request
      then snd (isRateLimited (client_id request) (now_limiter pf) m) else m)"
proof (cases "reaches_limiter env request")
  case False
  then consider "req_method request = ''OPTIONS''"
    | "req_method request \<noteq> ''OPTIONS''" "req_method request \<noteq> ''POST''"
    | "req_method request = ''POST''" "\<not> origin_allowed env request"
    | "req_method request = ''POST''" "origin_allowed env request" "\<not> key_accepted env request"
    by (auto simp add: reaches_limiter_def)
  then show ?thesis
  proof cases
    case 1 with False show ?thesis by (simp add: stage_preflight)
  next
    case 2 with False show ?thesis by (simp add: stage_method_not_allowed)
  next
    case 3 with False show ?thesis by (simp add: stage_origin_not_allowed)
  next
    case 4 with False show ?thesis by (simp add: stage_unauthorized)
  qed
next
  case True
  then show ?thesis
    by (auto simp add: fetch_def Let_def reaches_limiter_def origin_allowed_def key_accepted_def
          client_id_def split: prod.split option.split)
qed

lemma fetch_status_limiter:
  assumes "reaches_limiter env request"
  shows "status (fst (fetch env pf request m)) =  429 \<longleftrightarrow>
           fst (isRateLimited (client_id request) (now_limiter pf) m)"
    and "status (fst (fetch env pf request m)) \<in> {429, 400, 502, 200}"
  using assms
  by (auto simp add: fetch_def Let_def reaches_limiter_def origin_allowed_def key_accepted_def
          client_id_def jsonResponse_def split: prod.split option.split)

lemma isRateLimited_other:
  "ip' \<noteq> ip \<Longrightarrow> snd (isRateLimited ip now m) ip' = m ip'"
  by (simp add: isRateLimited_def split: option.split)

lemma isRateLimited_fresh:
  assumes "m ip = None \<or> (\<exists>e. m ip = Some e \<and> now - windowStart e > 60000)"
  shows "isRateLimited ip now m = (False, m(ip \<mapsto> \<lparr>count = 1, windowStart = now\<rparr>))"
  using assms by (auto simp add: isRateLimited_def RATE_LIMIT_WINDOW_MS_def)

lemma isRateLimited_under:
  assumes "m ip = Some e" and "now - windowStart e \<le> 60000" and "count e < 20"
  shows "isRateLimited ip now m = (False, m(ip \<mapsto> e\<lparr>count := count e + 1\<rparr>))"
  using assms by (simp add: isRateLimited_def RATE_LIMIT_WINDOW_MS_def RATE_LIMIT_MAX_def)

lemma isRateLimited_over:
  assumes "m ip = Some e" and "now - windowStart e \<le> 60000" and "count e \<ge> 20"
  shows "isRateLimited ip now m = (True, m)"
  using assms by (simp add: isRateLimited_def RATE_LIMIT_WINDOW_MS_def RATE_LIMIT_MAX_def)

lemma fetch_not_counted:
  assumes "\<not> counted env ip (pf, request)"
  shows "snd (fetch env pf request m) ip = m ip"
  using assms by (auto simp add: fetch_state counted_def isRateLimited_other)

lemma serve_Cons:
  "serve env ((pf, request) # rest) m =
     (fst (fetch env pf request m) # fst (serve env rest (snd (fetch env pf request m))),
      snd (serve env rest (snd (fetch env pf request m))))"
  by (simp add: Let_def split: prod.split)

lemma serve_length: "length (fst (serve env evs m)) = length evs"
proof (induction evs arbitrary: m)
  case Nil
  then show ?case by simp
next
  case (Cons ev evs)
  obtain pf request where "ev = (pf, request)" by (cases ev)
  then show ?case
    by (simp add: serve_Cons Cons.IH del: serve.simps)
qed

lemma serve_in_window:
  assumes "m ip = Some e"
      and "\<forall>ev \<in> set evs. counted env ip ev \<longrightarrow> now_limiter (fst ev) - windowStart e \<le> 60000"
      and "count e + int (length (filter (counted env ip) evs)) \<le> 20"
  shows "snd (serve env evs m) ip
           = Some (e\<lparr>count := count e + int (length (filter (counted env ip) evs))\<rparr>)
       \<and> (\<forall>(ev, r) \<in> set (zip evs (fst (serve env evs m))).
             counted env ip ev \<longrightarrow> status r \<in> {200, 400, 502})"
  using assms
proof (induction evs arbitrary: m e)
  case Nil
  then show ?case by simp
next
  case (Cons ev evs)
  obtain pf request where ev: "ev = (pf, request)" by (cases ev)
  let ?m' = "snd (fetch env pf request m)"
  show ?case
  proof (cases "counted env ip ev")
    case False
    then have m': "?m' ip = Some e"
      using Cons.prems(1) by (simp add: ev fetch_not_counted)
    have "snd (serve env evs ?m') ip
           = Some (e\<lparr>count := count e + int (length (filter (counted env ip) evs))\<rparr>)
       \<and> (\<forall>(ev, r) \<in> set (zip evs (fst (serve env evs ?m'))).
             counted env ip ev \<longrightarrow> status r \<in> {200, 400, 502})"
      by (rule Cons.IH [where m = "?m'" and e = e]) (use m' Cons.prems(2,3) False in auto)
    with False show ?thesis
      by (simp add: ev serve_Cons del: serve.simps)
  next
    case True
    then have rl: "reaches_limiter env request" and ip: "client_id request = ip"
      by (simp_all add: counted_def ev)
    have win: "now_limiter pf - windowStart e \<le> 60000"
      using Cons.prems(2) True by (simp add: ev)
    have under: "count e < 20"
      using Cons.prems(3) True by simp
    have step: "isRateLimited ip (now_limiter pf) m = (False, m(ip \<mapsto> e\<lparr>count := count e + 1\<rparr>))"
      using Cons.prems(1) win under by (rule isRateLimited_under)
    have m': "?m' ip = Some (e\<lparr>count := count e + 1\<rparr>)"
      using rl ip step by (simp add: fetch_state)
    have st: "status (fst (fetch env pf request m)) \<in> {200, 400, 502}"
      using fetch_status_limiter [OF rl, of pf m] step ip by auto
    have "snd (serve env evs ?m') ip
           = Some (e\<lparr>count := count e + 1\<rparr>
                    \<lparr>count := count (e\<lparr>count := count e + 1\<rparr>) + int (length (filter (counted env ip) evs))\<rparr>)
       \<and> (\<forall>(ev, r) \<in> set (zip evs (fst (serve env evs ?m'))).
             counted env ip ev \<longrightarrow> status r \<in> {200, 400, 502})"
      by (rule Cons.IH [where m = "?m'" and e = "e\<lparr>count := count e + 1\<rparr>"])
         (use m' Cons.prems(2,3) True in auto)
    with True st show ?thesis
      by (simp add: ev serve_Cons add.assoc del: serve.simps)
  qed
qed


subsection \<open>The allow-list and the public base URL\<close>

lemma allowed_keys_joined:
  "join '', '' (Object_keys ALLOWED_TYPES)
     = ''image/jpeg, image/png, image/gif, image/webp, image/svg+xml''"
  by (simp add: Object_keys_def ALLOWED_TYPES_def)

lemma property_read_Undefined_iff:
  "property_read ALLOWED_TYPES t = Undefined \<longleftrightarrow>
     t \<notin> {''image/jpeg'', ''image/png'', ''image/gif'', ''image/webp'', ''image/svg+xml''}
     \<and> t \<notin> set Object_prototype_keys"
  by (simp add: property_read_def ALLOWED_TYPES_def)

lemma property_read_own:
  "map_of ALLOWED_TYPES t = Some ext \<Longrightarrow> property_read ALLOWED_TYPES t = OwnString ext"
  by (simp add: property_read_def)

lemma allowed_ext_nonempty:
  "map_of ALLOWED_TYPES t = Some ext \<Longrightarrow> ext \<in> {''jpg'', ''png'', ''gif'', ''webp'', ''svg''}"
  by (auto simp add: ALLOWED_TYPES_def split: if_splits)

lemma replace_trailing_slash_snoc: "replace_trailing_slash (b @ ''/'') = b"
  by (simp add: replace_trailing_slash_def)

lemma replace_trailing_slash_id:
  "s = [] \<or> last s \<noteq> CHR ''/'' \<Longrightarrow> replace_trailing_slash s = s"
  by (auto simp add: replace_trailing_slash_def)

lemma fetch_200_stored:
  assumes "status (fst (fetch env pf request m)) = 200"
  shows "\<exists>f. parse_file request = Some f
           \<and> truthy_value (property_read ALLOWED_TYPES (type f))
           \<and> fst (fetch env pf request m) =
               jsonResponse
                 (url_json (replace_trailing_slash (R2_PUBLIC_URL env) @ ''/'' @
                    (''uploads/'' @ Number_toString (now_key pf) @ ''-'' @ randomUUID pf @ ''.''
                       @ template_string (property_read ALLOWED_TYPES (type f))))) 200
                 (buildCorsHeaders env (headers request ''Origin''))"
  using assms
  by (auto simp add: fetch_def Let_def jsonResponse_def split: prod.splits option.splits if_splits)

subsection \<open>The sample inputs, evaluated\<close>

lemma limiter_sample:
  "isRateLimited ''203.0.113.7'' 1700000000000 Map.empty
     = (False, [''203.0.113.7'' \<mapsto> \<lparr>count = 1, windowStart = 1700000000000\<rparr>])"
  by (simp add: isRateLimited_def)

lemma number_sample: "Number_toString 1700000000000 = ''1700000000000''"
  by (simp add: Number_toString_def digit_char_def)

lemma upload_reaches_limiter:
  "reaches_limiter env_open (upload_request t)"
  "reaches_limiter env_double_slash (upload_request t)"
  "reaches_limiter env_failing_storage (upload_request t)"
  "client_id (upload_request t) = ''203.0.113.7''"
  "parse_file (upload_request t) = Some (file_of_type t)"
  by (simp_all add: reaches_limiter_def origin_allowed_def key_accepted_def client_id_def
        parse_file_def env_open_def env_double_slash_def env_failing_storage_def upload_request_def)

lemma sample_reaches_limiter:
  "reaches_limiter env_open two_files_request"
  "reaches_limiter env_open text_field_request"
  "client_id two_files_request = ''203.0.113.7''"
  "client_id text_field_request = ''203.0.113.7''"
  "parse_file two_files_request = Some (file_of_type ''image/png'')"
  "parse_file text_field_request = None"
  by (simp_all add: reaches_limiter_def origin_allowed_def key_accepted_def client_id_def
        parse_file_def env_open_def two_files_request_def text_field_request_def)

lemma sample_not_limited:
  "\<not> fst (isRateLimited ''203.0.113.7'' (now_limiter platform_sample) Map.empty)"
  by (simp add: limiter_sample platform_sample_def)

lemma sample_types:
  "truthy_value (property_read ALLOWED_TYPES (type (file_of_type ''image/png'')))"
  "template_string (property_read ALLOWED_TYPES (type (file_of_type ''image/png''))) = ''png''"
  "map_of ALLOWED_TYPES (type (file_of_type ''image/png'')) = Some ''png''"
  by (simp_all add: property_read_def ALLOWED_TYPES_def file_of_type_def)

lemma sample_key:
  "''uploads/'' @ Number_toString (now_key platform_sample) @ ''-'' @ randomUUID platform_sample
     @ ''.'' @ ''png''
   = ''uploads/1700000000000-123e4567-e89b-12d3-a456-426614174000.png''"
  by (simp add: platform_sample_def number_sample)

lemma sample_png_stored:
  assumes "reaches_limiter env r"
      and "client_id r = ''203.0.113.7''"
      and "parse_file r = Some (file_of_type ''image/png'')"
      and "IMAGE_BUCKET env = bucket_accepting"
  shows "fetch env platform_sample r Map.empty =
     (jsonResponse
        (url_json (replace_trailing_slash (R2_PUBLIC_URL env) @ ''/'' @
           ''uploads/1700000000000-123e4567-e89b-12d3-a456-426614174000.png'')) 200
        (buildCorsHeaders env (headers r ''Origin'')),
      [''203.0.113.7'' \<mapsto> \<lparr>count = 1, windowStart = 1700000000000\<rparr>])"
proof -
  have l: "isRateLimited (client_id r) (now_limiter platform_sample) Map.empty
     = (False, [''203.0.113.7'' \<mapsto> \<lparr>count = 1, windowStart = 1700000000000\<rparr>])"
    by (simp add: assms(2) limiter_sample platform_sample_def)
  have p: "IMAGE_BUCKET env
             (''uploads/'' @ Number_toString (now_key platform_sample) @ ''-'' @ randomUUID platform_sample @ ''.''
                @ template_string (property_read ALLOWED_TYPES (type (file_of_type ''image/png''))))
             (arrayBuffer (file_of_type ''image/png'')) (type (file_of_type ''image/png'')) = None"
    by (simp add: assms(4) bucket_accepting_def)
  show ?thesis
    unfolding stage_stored [OF assms(1) l assms(3) sample_types(1) p]
    by (simp only: sample_types(2) sample_key)
qed

subsection \<open>From the limiter to the parsing stage\<close>

lemma fetch_not_limited_cases:
  assumes "reaches_limiter env request"
      and "\<not> fst (isRateLimited (client_id request) (now_limiter pf) m)"
  obtains m' where "isRateLimited (client_id request) (now_limiter pf) m = (False, m')"
  using assms(2) by (cases "isRateLimited (client_id request) (now_limiter pf) m") simp

lemma parse_file_None_iff:
  "parse_file request = None \<longleftrightarrow>
     formData request = None
     \<or> (\<exists>parts. formData request = Some parts
            \<and> (map_of parts ''file'' = None \<or> (\<exists>s. map_of parts ''file'' = Some (FormString s))))"
  by (auto simp add: parse_file_def split: option.splits FormDataEntryValue.splits)

lemma parse_file_Some_iff:
  "parse_file request = Some f \<longleftrightarrow>
     (\<exists>parts. formData request = Some parts \<and> map_of parts ''file'' = Some (FormFile f))"
  by (auto simp add: parse_file_def split: option.splits FormDataEntryValue.splits)

lemma fetch_cong_parse:
  assumes "req_method r1 = req_method r2" and "headers r1 = headers r2"
      and "parse_file r1 = parse_file r2"
  shows "fetch env pf r1 m = fetch env pf r2 m"
  by (simp only: fetch_def assms)

lemma parsed_body_differs:
  assumes "reaches_limiter env request"
      and "\<not> fst (isRateLimited (client_id request) (now_limiter pf) m)"
      and "parse_file request = Some f"
  shows \<open>body (fst (fetch env pf request m))
           \<noteq> Some (JSON_stringify
                   (error_json ''Invalid request. Expected multipart/form-data with a "file" field.''))\<close>
proof -
  obtain m' where l: "isRateLimited (client_id request) (now_limiter pf) m = (False, m')"
    using assms(1,2) by (rule fetch_not_limited_cases)
  show ?thesis
  proof (cases "truthy_value (property_read ALLOWED_TYPES (type f))")
    case False
    show ?thesis
      unfolding stage_unsupported [OF assms(1) l assms(3) False]
      by (simp add: jsonResponse_def stringify_error quoteJSONString_def quote_char_def)
  next
    case True
    show ?thesis
    proof (cases "IMAGE_BUCKET env
             (''uploads/'' @ Number_toString (now_key pf) @ ''-'' @ randomUUID pf @ ''.''
                @ template_string (property_read ALLOWED_TYPES (type f)))
             (arrayBuffer f) (type f)")
      case None
      show ?thesis
        unfolding stage_stored [OF assms(1) l assms(3) True None]
        by (simp add: jsonResponse_def stringify_error stringify_url)
    next
      case (Some err)
      show ?thesis
        unfolding stage_storage_failed [OF assms(1) l assms(3) True Some]
        by (simp add: jsonResponse_def stringify_error quoteJSONString_def quote_char_def)
    qed
  qed
qed

subsection \<open>The Response constructor on the handler's headers\<close>

lemma dropWhile_last:
  "dropWhile P xs \<noteq> [] \<Longrightarrow> last (dropWhile P xs) = last xs"
  by (induction xs) (auto split: if_splits)

lemma trim_ends:
  assumes "trim s \<noteq> []"
  shows "\<not> isWhiteSpace (hd (trim s))" and "\<not> isWhiteSpace (last (trim s))"
proof -
  let ?t = "dropWhile isWhiteSpace s"
  let ?u = "dropWhile isWhiteSpace (rev ?t)"
  have u: "?u \<noteq> []" using assms by (simp add: trim_def)
  have t: "?t \<noteq> []"
  proof
    assume e: "?t = []"
    have "?u = []" by (simp only: e rev.simps dropWhile.simps)
    with u show False by simp
  qed
  have "last (trim s) = hd ?u" using u by (simp add: trim_def last_rev)
  moreover have "\<not> isWhiteSpace (hd ?u)" using u by (rule hd_dropWhile)
  ultimately show "\<not> isWhiteSpace (last (trim s))" by simp
  have "hd (trim s) = last ?u" using u by (simp add: trim_def hd_rev)
  also have "\<dots> = last (rev ?t)" using u by (rule dropWhile_last)
  also have "\<dots> = hd ?t" using t by (simp add: last_rev)
  finally have "hd (trim s) = hd ?t" .
  moreover have "\<not> isWhiteSpace (hd ?t)" using t by (rule hd_dropWhile)
  ultimately show "\<not> isWhiteSpace (hd (trim s))" by simp
qed

lemma http_whitespace_is_whitespace: "isHttpWhitespace c \<Longrightarrow> isWhiteSpace c"
  by (auto simp add: isHttpWhitespace_def isWhiteSpace_def)

lemma normalize_trim: "normalize_header_value (trim s) = trim s"
proof (cases "trim s = []")
  case True
  then show ?thesis by (simp add: normalize_header_value_def)
next
  case False
  from trim_ends [OF False]
  have h: "\<not> isHttpWhitespace (hd (trim s))" and l: "\<not> isHttpWhitespace (last (trim s))"
    using http_whitespace_is_whitespace by blast+
  have a: "dropWhile isHttpWhitespace (trim s) = trim s"
    using h by (simp add: dropWhile_eq_self_iff)
  have "dropWhile isHttpWhitespace (rev (trim s)) = rev (trim s)"
    using l False by (simp add: dropWhile_eq_self_iff hd_rev)
  with a show ?thesis by (simp add: normalize_header_value_def)
qed

lemma new_Response_cors:
  assumes "resp_headers init = buildCorsHeaders env origin
           \<or> resp_headers init = (''Content-Type'', ''application/json'') # buildCorsHeaders env origin"
      and "normalize_header_value (getAllowedOrigin env origin) = getAllowedOrigin env origin"
  shows "new_Response init =
           (if valid_header_value (getAllowedOrigin env origin) then Inr init else Inl TypeError)"
  using assms
  by (auto simp add: new_Response_def buildCorsHeaders_def normalize_header_value_def
        isHttpWhitespace_def valid_header_value_def)

lemma fetch_result_eq:
  "fetch_result env pf request m = (new_Response (fst (fetch env pf request m)), snd (fetch env pf request m))"
  by (simp add: fetch_result_def split: prod.split)

lemma line_feed_sample:
  "trim origin_with_line_feed = origin_with_line_feed"
  "origin_with_line_feed \<noteq> []"
  "\<not> valid_header_value origin_with_line_feed"
  "CHR 0x0A \<in> set origin_with_line_feed"
  by (simp_all add: origin_with_line_feed_def trim_def isWhiteSpace_def valid_header_value_def)

subsection \<open>Authentication\<close>




subsection \<open>Rate limiting\<close>

text \<open>
  C2. Take any client identifier \<open>ip\<close> and a run of the instance in which a request
  that reaches the limiter under \<open>ip\<close> opens a window (no entry for \<open>ip\<close>, or an entry
  older than 60000 ms), followed by requests among which exactly 19 more reach the limiter
  under \<open>ip\<close>, each no later than 60000 ms after the first; requests of other clients and
  requests stopped before the limiter may come in between. Then each of these 20 requests
  is answered (the run yields one response for each request) with 200, 400 or 502
  (success or a later-stage error, never 429), the entry stands at count 20, and a 21st such request within the window is answered 429 and
  leaves the rate-limit map as it is.
\<close>

theorem fetch_21st_limited:
  assumes "counted env ip (p1, r1)"
      and "m ip = None \<or> (\<exists>e. m ip = Some e \<and> now_limiter p1 - windowStart e > 60000)"
      and "length (filter (counted env ip) evs) = 19"
      and "\<forall>ev \<in> set evs. counted env ip ev \<longrightarrow> now_limiter (fst ev) - now_limiter p1 \<le> 60000"
      and "counted env ip (p21, r21)"
      and "now_limiter p21 - now_limiter p1 \<le> 60000"
  shows "let (rs, m20) = serve env ((p1, r1) # evs) m in
           status (fst (fetch env p21 r21 m20)) = 429
         \<and> snd (fetch env p21 r21 m20) = m20
         \<and> m20 ip = Some \<lparr>count = 20, windowStart = now_limiter p1\<rparr>
         \<and> length rs = length ((p1, r1) # evs)
         \<and> (\<forall>(ev, r) \<in> set (zip ((p1, r1) # evs) rs).
               counted env ip ev \<longrightarrow> status r \<in> {200, 400, 502})"
proof -
  let ?e1 = "\<lparr>count = 1, windowStart = now_limiter p1\<rparr>"
  let ?m1 = "snd (fetch env p1 r1 m)"
  have rl1: "reaches_limiter env r1" and ip1: "client_id r1 = ip"
    using assms(1) by (simp_all add: counted_def)
  have first: "isRateLimited ip (now_limiter p1) m = (False, m(ip \<mapsto> ?e1))"
    using assms(2) by (rule isRateLimited_fresh)
  have m1: "?m1 ip = Some ?e1"
    using rl1 ip1 first by (simp add: fetch_state)
  have st1: "status (fst (fetch env p1 r1 m)) \<in> {200, 400, 502}"
    using fetch_status_limiter [OF rl1, of p1 m] first ip1 by auto
  have rest: "snd (serve env evs ?m1) ip
                = Some (?e1\<lparr>count := count ?e1 + int (length (filter (counted env ip) evs))\<rparr>)
       \<and> (\<forall>(ev, r) \<in> set (zip evs (fst (serve env evs ?m1))).
             counted env ip ev \<longrightarrow> status r \<in> {200, 400, 502})"
    using m1 by (rule serve_in_window) (use assms(3,4) in auto)
  let ?m20 = "snd (serve env evs ?m1)"
  have m20: "?m20 ip = Some \<lparr>count = 20, windowStart = now_limiter p1\<rparr>"
    using rest assms(3) by simp
  have rl21: "reaches_limiter env r21" and ip21: "client_id r21 = ip"
    using assms(5) by (simp_all add: counted_def)
  have last: "isRateLimited ip (now_limiter p21) ?m20 = (True, ?m20)"
    using m20 by (rule isRateLimited_over) (use assms(6) in auto)
  have st21: "status (fst (fetch env p21 r21 ?m20)) = 429"
    using fetch_status_limiter(1) [OF rl21, of p21 ?m20] last ip21 by simp
  have keep: "snd (fetch env p21 r21 ?m20) = ?m20"
    using rl21 ip21 last by (simp add: fetch_state)
  show ?thesis
    using st1 rest m20 st21 keep
    by (simp add: serve_Cons serve_length del: serve.simps)
qed

theorem fetch_21st_limited_witness:
  "let (rs, m20) = serve env_open
         ((platform_sample, upload_request ''image/png'')
            # replicate 19 (platform_sample, upload_request ''image/png'')) Map.empty in
           status (fst (fetch env_open platform_sample (upload_request ''image/png'') m20)) = 429
         \<and> snd (fetch env_open platform_sample (upload_request ''image/png'') m20) = m20
         \<and> m20 ''203.0.113.7'' = Some \<lparr>count = 20, windowStart = now_limiter platform_sample\<rparr>
         \<and> length rs = length ((platform_sample, upload_request ''image/png'')
                                    # replicate 19 (platform_sample, upload_request ''image/png''))
         \<and> (\<forall>(ev, r) \<in> set (zip ((platform_sample, upload_request ''image/png'')
                                    # replicate 19 (platform_sample, upload_request ''image/png'')) rs).
               counted env_open ''203.0.113.7'' ev \<longrightarrow> status r \<in> {200, 400, 502})"
proof -
  have c: "counted env_open ''203.0.113.7'' (platform_sample, upload_request ''image/png'')"
    by (simp add: counted_def reaches_limiter_def origin_allowed_def key_accepted_def
          client_id_def env_open_def upload_request_def)
  have n: "length (filter (counted env_open ''203.0.113.7'')
             (replicate 19 (platform_sample, upload_request ''image/png''))) = 19"
    using c by simp
  have w: "\<forall>ev \<in> set (replicate 19 (platform_sample, upload_request ''image/png'')).
             counted env_open ''203.0.113.7'' ev \<longrightarrow>
             now_limiter (fst ev) - now_limiter platform_sample \<le> 60000"
    by simp
  show ?thesis
    by (rule fetch_21st_limited [OF c _ n w c]) simp_all
qed

subsection \<open>The rate limiter, one call\<close>

text \<open>
  C3. For a client identifier with an existing entry: when the current time exceeds the
  entry's window start by strictly more than 60000 ms, the call resets the entry (count 1,
  window start the current time) and does not limit; otherwise, when the count is under
  the limit of 20, the call increments the count, keeps the window start and does not
  limit.
\<close>

theorem isRateLimited_reset_or_increment:
  assumes "rateLimitMap ip = Some entry"
  shows "(now - windowStart entry > 60000 \<longrightarrow>
            isRateLimited ip now rateLimitMap =
              (False, rateLimitMap(ip \<mapsto> \<lparr>count = 1, windowStart = now\<rparr>)))
       \<and> (\<not> now - windowStart entry > 60000 \<and> count entry < 20 \<longrightarrow>
            isRateLimited ip now rateLimitMap =
              (False, rateLimitMap(ip \<mapsto> entry\<lparr>count := count entry + 1\<rparr>)))"
  using assms
  by (simp add: isRateLimited_def RATE_LIMIT_MAX_def RATE_LIMIT_WINDOW_MS_def)

theorem isRateLimited_reset_or_increment_witness:
  "isRateLimited ''203.0.113.7'' 61001
       [''203.0.113.7'' \<mapsto> \<lparr>count = 20, windowStart = 1000\<rparr>]
     = (False, [''203.0.113.7'' \<mapsto> \<lparr>count = 1, windowStart = 61001\<rparr>])
   \<and> isRateLimited ''203.0.113.7'' 61000
       [''203.0.113.7'' \<mapsto> \<lparr>count = 19, windowStart = 1000\<rparr>]
     = (False, [''203.0.113.7'' \<mapsto> \<lparr>count = 20, windowStart = 1000\<rparr>])"
  using isRateLimited_reset_or_increment
          [of "[''203.0.113.7'' \<mapsto> \<lparr>count = 20, windowStart = 1000\<rparr>]" "''203.0.113.7''"
              "\<lparr>count = 20, windowStart = 1000\<rparr>" 61001]
        isRateLimited_reset_or_increment
          [of "[''203.0.113.7'' \<mapsto> \<lparr>count = 19, windowStart = 1000\<rparr>]" "''203.0.113.7''"
              "\<lparr>count = 19, windowStart = 1000\<rparr>" 61000]
  by simp

subsection \<open>Type validation\<close>

text \<open>
  C4 does not hold of the code. \<open>ALLOWED_TYPES[file.type]\<close> also finds what the object
  inherits from \<open>Object.prototype\<close>: for the declared type \<open>constructor\<close> the value read is
  a function, which is truthy, so the file is stored under a key that ends in the
  function's source text, and the response is 200.
\<close>

theorem fetch_type_constructor_stored:
  \<open>status (fst (fetch env_open platform_sample (upload_request ''constructor'') Map.empty)) = 200
   \<and> body (fst (fetch env_open platform_sample (upload_request ''constructor'') Map.empty))
       = Some ''{"url":"https://pub-abc123.r2.dev/uploads/1700000000000-123e4567-e89b-12d3-a456-426614174000.function Object() { [native code] }"}''\<close>
proof -
  have l: "isRateLimited (client_id (upload_request ''constructor'')) (now_limiter platform_sample) Map.empty
     = (False, [''203.0.113.7'' \<mapsto> \<lparr>count = 1, windowStart = 1700000000000\<rparr>])"
    by (simp add: upload_reaches_limiter limiter_sample platform_sample_def)
  have t: "truthy_value (property_read ALLOWED_TYPES (type (file_of_type ''constructor'')))"
    by (simp add: property_read_def ALLOWED_TYPES_def Object_prototype_keys_def file_of_type_def)
  have p: "IMAGE_BUCKET env_open
             (''uploads/'' @ Number_toString (now_key platform_sample) @ ''-'' @ randomUUID platform_sample @ ''.''
                @ template_string (property_read ALLOWED_TYPES (type (file_of_type ''constructor''))))
             (arrayBuffer (file_of_type ''constructor'')) (type (file_of_type ''constructor'')) = None"
    by (simp add: env_open_def bucket_accepting_def)
  show ?thesis
    unfolding stage_stored [OF upload_reaches_limiter(1) l upload_reaches_limiter(5) t p]
    by (simp add: jsonResponse_def stringify_url quoteJSONString_def quote_char_def
          platform_sample_def number_sample env_open_def replace_trailing_slash_def
          property_read_def ALLOWED_TYPES_def Object_prototype_keys_def file_of_type_def)
qed


text \<open>So this request, whose declared type is not one of the five, is not answered 400.\<close>

theorem fetch_type_constructor_stored_witness:
  "type (file_of_type ''constructor'')
     \<notin> {''image/jpeg'', ''image/png'', ''image/gif'', ''image/webp'', ''image/svg+xml''}
   \<and> parse_file (upload_request ''constructor'') = Some (file_of_type ''constructor'')
   \<and> status (fst (fetch env_open platform_sample (upload_request ''constructor'') Map.empty)) \<noteq> 400"
  using fetch_type_constructor_stored
  by (simp add: upload_reaches_limiter file_of_type_def)

text \<open>
  What the type check does reject: a declared type for which the property read yields
  \<open>undefined\<close>, that is, one that is neither an own key of the allow-list nor a member of
  \<open>Object.prototype\<close>. The response is then 400 and its message names the type and lists
  the five allowed types, as in the specification's example for \<open>application/pdf\<close>.
\<close>

lemma fetch_unsupported_type_400:
  assumes "reaches_limiter env request"
      and "\<not> fst (isRateLimited (client_id request) (now_limiter pf) m)"
      and "parse_file request = Some file"
      and "property_read ALLOWED_TYPES (type file) = Undefined"
  shows \<open>status (fst (fetch env pf request m)) = 400
       \<and> body (fst (fetch env pf request m))
           = Some (''{"error":'' @ quoteJSONString (''Unsupported file type "'' @ type file
                     @ ''". Allowed types: image/jpeg, image/png, image/gif, image/webp, image/svg+xml'')
                   @ ''}'')\<close>
proof -
  obtain m' where l: "isRateLimited (client_id request) (now_limiter pf) m = (False, m')"
    using assms(2) by (cases "isRateLimited (client_id request) (now_limiter pf) m") simp
  have t: "\<not> truthy_value (property_read ALLOWED_TYPES (type file))"
    using assms(4) by simp
  show ?thesis
    unfolding stage_unsupported [OF assms(1) l assms(3) t]
    by (simp add: jsonResponse_def stringify_error allowed_keys_joined)
qed

lemma fetch_pdf_400:
  \<open>status (fst (fetch env_open platform_sample (upload_request ''application/pdf'') Map.empty)) = 400
   \<and> body (fst (fetch env_open platform_sample (upload_request ''application/pdf'') Map.empty))
       = Some (''{"error":"Unsupported file type '' @ [CHR 0x5C] @ ''"application/pdf'' @ [CHR 0x5C]
               @ ''". Allowed types: image/jpeg, image/png, image/gif, image/webp, image/svg+xml"}'')\<close>
proof -
  have l: "\<not> fst (isRateLimited (client_id (upload_request ''application/pdf''))
                   (now_limiter platform_sample) Map.empty)"
    by (simp add: upload_reaches_limiter limiter_sample platform_sample_def)
  have t: "property_read ALLOWED_TYPES (type (file_of_type ''application/pdf'')) = Undefined"
    by (simp add: property_read_Undefined_iff Object_prototype_keys_def file_of_type_def)
  show ?thesis
    using fetch_unsupported_type_400 [OF upload_reaches_limiter(1) l upload_reaches_limiter(5) t]
    by (simp add: quoteJSONString_def quote_char_def file_of_type_def)
qed

subsection \<open>The success response\<close>

text \<open>
  C5, as amended. For every successful upload (status 200) of a file whose declared type
  is one of the five keys of the allow-list, the body is \<open>{"url":<u>}\<close> where \<open>u\<close> is
  \<open>R2_PUBLIC_URL\<close> with one slash removed from its end if it ends in one (and only one: a
  base URL that ends in several slashes keeps the others), followed by \<open>/\<close> and the key
  \<open>uploads/<Date.now() in decimal>-<randomUUID>.<ext>\<close>, where \<open>ext\<close> is the extension the
  allow-list maps the declared type to.
\<close>

theorem fetch_success_url:
  assumes "status (fst (fetch env pf request m)) = 200"
      and "parse_file request = Some file"
      and "map_of ALLOWED_TYPES (type file) = Some ext"
  shows \<open>body (fst (fetch env pf request m))
           = Some (''{"url":'' @ quoteJSONString
                     (replace_trailing_slash (R2_PUBLIC_URL env) @ ''/'' @ ''uploads/''
                        @ Number_toString (now_key pf) @ ''-'' @ randomUUID pf @ ''.'' @ ext)
                   @ ''}'')
       \<and> ext \<in> {''jpg'', ''png'', ''gif'', ''webp'', ''svg''}\<close>
proof -
  from fetch_200_stored [OF assms(1)] assms(2)
  have "fst (fetch env pf request m) =
               jsonResponse
                 (url_json (replace_trailing_slash (R2_PUBLIC_URL env) @ ''/'' @
                    (''uploads/'' @ Number_toString (now_key pf) @ ''-'' @ randomUUID pf @ ''.''
                       @ template_string (property_read ALLOWED_TYPES (type file))))) 200
                 (buildCorsHeaders env (headers request ''Origin''))"
    by auto
  then show ?thesis
    using allowed_ext_nonempty [OF assms(3)]
    by (simp add: property_read_own [OF assms(3)] jsonResponse_def stringify_url)
qed

theorem fetch_success_url_witness:
  \<open>body (fst (fetch env_open platform_sample (upload_request ''image/png'') Map.empty))
     = Some ''{"url":"https://pub-abc123.r2.dev/uploads/1700000000000-123e4567-e89b-12d3-a456-426614174000.png"}''\<close>
proof -
  have "IMAGE_BUCKET env_open = bucket_accepting"
    by (simp add: env_open_def)
  note f = sample_png_stored [OF upload_reaches_limiter(1) upload_reaches_limiter(4,5) this]
  have s: "status (fst (fetch env_open platform_sample (upload_request ''image/png'') Map.empty)) = 200"
    unfolding f by (simp add: jsonResponse_def)
  show ?thesis
    using fetch_success_url [OF s upload_reaches_limiter(5) sample_types(3)]
    by (simp add: quoteJSONString_def quote_char_def env_open_def replace_trailing_slash_def
          platform_sample_def number_sample)
qed

text \<open>
  C5 as stated fails: only one slash is removed from the end of \<open>R2_PUBLIC_URL\<close>. For the
  base URL \<open>https://pub-abc123.r2.dev//\<close> the URL returned has two slashes before
  \<open>uploads\<close>, where the base URL with its trailing slashes stripped, joined to the key,
  has one.
\<close>

theorem fetch_double_slash_counterexample:
  \<open>status (fst (fetch env_double_slash platform_sample (upload_request ''image/png'') Map.empty)) = 200
   \<and> body (fst (fetch env_double_slash platform_sample (upload_request ''image/png'') Map.empty))
       = Some ''{"url":"https://pub-abc123.r2.dev//uploads/1700000000000-123e4567-e89b-12d3-a456-426614174000.png"}''
   \<and> spec_public_base (R2_PUBLIC_URL env_double_slash) @ ''/''
         @ ''uploads/1700000000000-123e4567-e89b-12d3-a456-426614174000.png''
       = ''https://pub-abc123.r2.dev/uploads/1700000000000-123e4567-e89b-12d3-a456-426614174000.png''\<close>
proof -
  have "IMAGE_BUCKET env_double_slash = bucket_accepting"
    by (simp add: env_double_slash_def)
  note f = sample_png_stored [OF upload_reaches_limiter(2) upload_reaches_limiter(4,5) this]
  show ?thesis
    unfolding f
    by (simp add: env_double_slash_def jsonResponse_def stringify_url quoteJSONString_def
          quote_char_def replace_trailing_slash_def spec_public_base_def)
qed


subsection \<open>Payload parsing\<close>

text \<open>
  C6, as amended. For every POST request that reaches the parsing stage (it passed the
  origin check, the key check and the limiter): when the body cannot be read as form
  data, or the form has no part named \<open>file\<close>, or its first part named \<open>file\<close> is a string
  and not a file, the response is 400 and its body is the JSON text of
  an object whose \<open>error\<close> member is the fixed message
  \<open>Invalid request. Expected multipart/form-data with a "file" field.\<close>
  When the first part named \<open>file\<close> is a file, the request goes on to type validation with
  that file: the handler answers exactly as for the form that holds this one part alone,
  whatever other parts (also further parts named \<open>file\<close>) the form has, and the response
  is not the parsing error.
\<close>

theorem fetch_parse_stage:
  assumes "reaches_limiter env request"
      and "\<not> fst (isRateLimited (client_id request) (now_limiter pf) m)"
  shows \<open>(formData request = None
          \<or> (\<exists>parts. formData request = Some parts
                 \<and> (map_of parts ''file'' = None
                      \<or> (\<exists>s. map_of parts ''file'' = Some (FormString s))))
          \<longrightarrow> status (fst (fetch env pf request m)) = 400
              \<and> body (fst (fetch env pf request m))
                  = Some (JSON_stringify (error_json
                      ''Invalid request. Expected multipart/form-data with a "file" field.'')))
       \<and> (\<forall>parts f. formData request = Some parts \<and> map_of parts ''file'' = Some (FormFile f)
              \<longrightarrow> fetch env pf request m
                    = fetch env pf (request\<lparr>formData := Some [(''file'', FormFile f)]\<rparr>) m
                \<and> body (fst (fetch env pf request m))
                  \<noteq> Some (JSON_stringify (error_json
                      ''Invalid request. Expected multipart/form-data with a "file" field.'')))\<close>
proof (rule conjI)
  obtain m' where l: "isRateLimited (client_id request) (now_limiter pf) m = (False, m')"
    using assms by (rule fetch_not_limited_cases)
  show \<open>formData request = None
          \<or> (\<exists>parts. formData request = Some parts
                 \<and> (map_of parts ''file'' = None
                      \<or> (\<exists>s. map_of parts ''file'' = Some (FormString s))))
          \<longrightarrow> status (fst (fetch env pf request m)) = 400
              \<and> body (fst (fetch env pf request m))
                  = Some (JSON_stringify (error_json
                      ''Invalid request. Expected multipart/form-data with a "file" field.''))\<close>
  proof (rule impI)
    assume "formData request = None
          \<or> (\<exists>parts. formData request = Some parts
                 \<and> (map_of parts ''file'' = None
                      \<or> (\<exists>s. map_of parts ''file'' = Some (FormString s))))"
    then have "parse_file request = None"
      by (simp only: parse_file_None_iff)
    then show \<open>status (fst (fetch env pf request m)) = 400
              \<and> body (fst (fetch env pf request m))
                  = Some (JSON_stringify (error_json
                      ''Invalid request. Expected multipart/form-data with a "file" field.''))\<close>
      unfolding stage_unparsed [OF assms(1) l \<open>parse_file request = None\<close>]
      by (simp add: jsonResponse_def del: JSON_stringify.simps)
  qed
next
  show \<open>\<forall>parts f. formData request = Some parts \<and> map_of parts ''file'' = Some (FormFile f)
              \<longrightarrow> fetch env pf request m
                    = fetch env pf (request\<lparr>formData := Some [(''file'', FormFile f)]\<rparr>) m
                \<and> body (fst (fetch env pf request m))
                  \<noteq> Some (JSON_stringify (error_json
                      ''Invalid request. Expected multipart/form-data with a "file" field.''))\<close>
  proof (intro allI impI)
    fix parts f
    assume "formData request = Some parts \<and> map_of parts ''file'' = Some (FormFile f)"
    then have p: "parse_file request = Some f"
      by (simp add: parse_file_def)
    have "parse_file (request\<lparr>formData := Some [(''file'', FormFile f)]\<rparr>) = Some f"
      by (simp add: parse_file_def)
    with p have "fetch env pf request m
                = fetch env pf (request\<lparr>formData := Some [(''file'', FormFile f)]\<rparr>) m"
      by (intro fetch_cong_parse) simp_all
    from this parsed_body_differs [OF assms p]
    show \<open>fetch env pf request m
                    = fetch env pf (request\<lparr>formData := Some [(''file'', FormFile f)]\<rparr>) m
                \<and> body (fst (fetch env pf request m))
                  \<noteq> Some (JSON_stringify (error_json
                      ''Invalid request. Expected multipart/form-data with a "file" field.''))\<close>
      by (rule conjI)
  qed
qed


theorem fetch_parse_stage_witness:
  \<open>status (fst (fetch env_open platform_sample text_field_request Map.empty)) = 400
   \<and> fetch env_open platform_sample two_files_request Map.empty
       = fetch env_open platform_sample
           (two_files_request\<lparr>formData := Some [(''file'', FormFile (file_of_type ''image/png''))]\<rparr>)
           Map.empty\<close>
proof -
  have l1: "\<not> fst (isRateLimited (client_id text_field_request) (now_limiter platform_sample) Map.empty)"
    by (simp only: sample_reaches_limiter(4) sample_not_limited not_False_eq_True)
  have l2: "\<not> fst (isRateLimited (client_id two_files_request) (now_limiter platform_sample) Map.empty)"
    by (simp only: sample_reaches_limiter(3) sample_not_limited not_False_eq_True)
  have a: "formData text_field_request = None
          \<or> (\<exists>parts. formData text_field_request = Some parts
                 \<and> (map_of parts ''file'' = None
                      \<or> (\<exists>s. map_of parts ''file'' = Some (FormString s))))"
    by (simp add: text_field_request_def)
  have b: "formData two_files_request
             = Some [(''file'', FormFile (file_of_type ''image/png'')),
                     (''file'', FormFile (file_of_type ''image/gif''))]
         \<and> map_of [(''file'', FormFile (file_of_type ''image/png'')),
                     (''file'', FormFile (file_of_type ''image/gif''))] ''file''
             = Some (FormFile (file_of_type ''image/png''))"
    by (simp add: two_files_request_def)
  have "status (fst (fetch env_open platform_sample text_field_request Map.empty)) = 400"
    using fetch_parse_stage [OF sample_reaches_limiter(2) l1, THEN conjunct1, THEN mp, OF a]
    by (rule conjunct1)
  moreover have "fetch env_open platform_sample two_files_request Map.empty
       = fetch env_open platform_sample
           (two_files_request\<lparr>formData := Some [(''file'', FormFile (file_of_type ''image/png''))]\<rparr>)
           Map.empty"
    using fetch_parse_stage [OF sample_reaches_limiter(1) l2, THEN conjunct2, THEN spec, THEN spec,
            THEN mp, OF b]
    by (rule conjunct1)
  ultimately show ?thesis by (rule conjI)
qed

text \<open>
  C6 as stated fails: a form with two parts named \<open>file\<close> is not rejected;
  \<open>formData.get('file')\<close> takes the first and the upload succeeds.
\<close>

theorem fetch_two_files_counterexample:
  "formData two_files_request
     = Some [(''file'', FormFile (file_of_type ''image/png'')),
             (''file'', FormFile (file_of_type ''image/gif''))]
   \<and> status (fst (fetch env_open platform_sample two_files_request Map.empty)) = 200
   \<and> status (fst (fetch env_open platform_sample two_files_request Map.empty)) \<noteq> 400"
proof -
  have "IMAGE_BUCKET env_open = bucket_accepting"
    by (simp add: env_open_def)
  note f = sample_png_stored [OF sample_reaches_limiter(1,3,5) this]
  show ?thesis
    unfolding f by (simp add: two_files_request_def jsonResponse_def)
qed

subsection \<open>Storage failure\<close>

text \<open>
  C7. For every request that gets as far as the storage write (it reached the limiter,
  was not limited, carried a file, and the file's type passed the type check), when the
  bucket's \<open>put\<close> rejects, with whatever error \<open>err\<close>, the response status is 502 and the
  body is the fixed text \<open>{"error":"Upload to storage failed. Please try again."}\<close>: the
  same for every \<open>err\<close>, which does not enter it.
\<close>

theorem fetch_storage_failure_502:
  assumes "reaches_limiter env request"
      and "\<not> fst (isRateLimited (client_id request) (now_limiter pf) m)"
      and "parse_file request = Some file"
      and "truthy_value (property_read ALLOWED_TYPES (type file))"
      and "IMAGE_BUCKET env
             (''uploads/'' @ Number_toString (now_key pf) @ ''-'' @ randomUUID pf @ ''.''
                @ template_string (property_read ALLOWED_TYPES (type file)))
             (arrayBuffer file) (type file) = Some err"
  shows \<open>status (fst (fetch env pf request m)) = 502
       \<and> body (fst (fetch env pf request m))
           = Some ''{"error":"Upload to storage failed. Please try again."}''\<close>
proof -
  obtain m' where l: "isRateLimited (client_id request) (now_limiter pf) m = (False, m')"
    using assms(1,2) by (rule fetch_not_limited_cases)
  show ?thesis
    unfolding stage_storage_failed [OF assms(1) l assms(3,4,5)]
    by (simp add: jsonResponse_def stringify_error quoteJSONString_def quote_char_def)
qed

theorem fetch_storage_failure_502_witness:
  \<open>status (fst (fetch env_failing_storage platform_sample (upload_request ''image/png'') Map.empty)) = 502
   \<and> body (fst (fetch env_failing_storage platform_sample (upload_request ''image/png'') Map.empty))
       = Some ''{"error":"Upload to storage failed. Please try again."}''\<close>
proof -
  have l: "\<not> fst (isRateLimited (client_id (upload_request ''image/png''))
                   (now_limiter platform_sample) Map.empty)"
    by (simp only: upload_reaches_limiter(4) sample_not_limited not_False_eq_True)
  have p: "IMAGE_BUCKET env_failing_storage
             (''uploads/'' @ Number_toString (now_key platform_sample) @ ''-''
                @ randomUUID platform_sample @ ''.''
                @ template_string (property_read ALLOWED_TYPES (type (file_of_type ''image/png''))))
             (arrayBuffer (file_of_type ''image/png'')) (type (file_of_type ''image/png''))
           = Some ''R2 internal error 10001: bucket quota exceeded''"
    by (simp add: env_failing_storage_def bucket_rejecting_def)
  show ?thesis
    by (rule fetch_storage_failure_502
          [OF upload_reaches_limiter(3) l upload_reaches_limiter(5) sample_types(1) p])
qed

subsection \<open>CORS headers and the shape of responses\<close>

text \<open>
  C8. When \<open>ALLOWED_ORIGIN\<close> is unset, or empty after trimming, the
  \<open>Access-Control-Allow-Origin\<close> header of the response to any request is the request's
  \<open>Origin\<close> header verbatim, or \<open>*\<close> when the request has no \<open>Origin\<close> header.
\<close>

theorem fetch_echoes_origin:
  assumes "ALLOWED_ORIGIN env = None \<or> (\<exists>s. ALLOWED_ORIGIN env = Some s \<and> trim s = [])"
  shows "header (fst (fetch env pf request m)) ''Access-Control-Allow-Origin''
           = Some (case headers request ''Origin'' of None \<Rightarrow> ''*'' | Some origin \<Rightarrow> origin)"
  using assms
  by (auto simp add: header_allow_origin getAllowedOrigin_def split: option.split)

theorem fetch_echoes_origin_witness:
  "header (fst (fetch env_open platform_sample preflight_request Map.empty))
     ''Access-Control-Allow-Origin'' = Some ''https://b.example''
   \<and> header (fst (fetch env_open platform_sample anonymous_request Map.empty))
     ''Access-Control-Allow-Origin'' = Some ''*''"
  using fetch_echoes_origin [of env_open platform_sample preflight_request Map.empty]
        fetch_echoes_origin [of env_open platform_sample anonymous_request Map.empty]
  by (simp add: env_open_def preflight_request_def anonymous_request_def)

text \<open>
  C9. Every response of the handler carries the four CORS headers
  (\<open>Access-Control-Allow-Origin\<close> as \<open>getAllowedOrigin\<close> computes it, and the three fixed
  ones); its status is one of 204, 200, 405, 403, 401, 429, 400, 502; and every response
  other than the 204 preflight and the 200 success has a body of the form
  \<open>{"error":<message as a JSON string>}\<close>.
\<close>

theorem fetch_response_shape:
  fixes env pf request m
  defines "r \<equiv> fst (fetch env pf request m)"
  shows \<open>header r ''Access-Control-Allow-Origin''
           = Some (getAllowedOrigin env (headers request ''Origin''))
       \<and> header r ''Access-Control-Allow-Methods'' = Some ''POST, OPTIONS''
       \<and> header r ''Access-Control-Allow-Headers'' = Some ''Content-Type, X-Upload-Api-Key''
       \<and> header r ''Access-Control-Max-Age'' = Some ''86400''
       \<and> status r \<in> {204, 200, 405, 403, 401, 429, 400, 502}
       \<and> (status r \<noteq> 204 \<and> status r \<noteq> 200 \<longrightarrow>
            (\<exists>msg. body r = Some (''{"error":'' @ quoteJSONString msg @ ''}'')))\<close>
proof -
  have h: "header r ''Access-Control-Allow-Methods'' = Some ''POST, OPTIONS''
       \<and> header r ''Access-Control-Allow-Headers'' = Some ''Content-Type, X-Upload-Api-Key''
       \<and> header r ''Access-Control-Max-Age'' = Some ''86400''"
    using fetch_headers [of env pf request m]
    by (auto simp add: r_def header_def buildCorsHeaders_def)
  have s: "status r \<in> {204, 200, 405, 403, 401, 429, 400, 502}"
    using fetch_cases [of env pf request m]
    by (auto simp add: r_def jsonResponse_def)
  have b: "status r \<noteq> 204 \<and> status r \<noteq> 200 \<longrightarrow>
            (\<exists>msg. body r = Some (JSON_stringify (error_json msg)))"
    using fetch_cases [of env pf request m]
    by (auto simp add: r_def jsonResponse_def)
  show ?thesis
    using h b s header_allow_origin [of env pf request m]
    by (simp add: r_def stringify_error)
qed

theorem fetch_response_shape_witness:
  \<open>status (fst (fetch env_open platform_sample anonymous_request Map.empty)) = 401
   \<and> (\<exists>msg. body (fst (fetch env_open platform_sample anonymous_request Map.empty))
              = Some (''{"error":'' @ quoteJSONString msg @ ''}''))
   \<and> header (fst (fetch env_open platform_sample anonymous_request Map.empty))
         ''Access-Control-Max-Age'' = Some ''86400''\<close>
  using fetch_response_shape [of env_open platform_sample anonymous_request Map.empty]
  by (simp add: env_open_def fetch_def anonymous_request_def jsonResponse_def)

text \<open>
  C10, as amended. When \<open>ALLOWED_ORIGIN\<close> trims to a non-empty string that holds no NUL,
  LF or CR, every request gets a response, the one \<open>fetch\<close> builds, and its
  \<open>Access-Control-Allow-Origin\<close> header is that trimmed value, whatever the request's
  \<open>Origin\<close> header is: also on the 204 preflight response and on the 403 response to a
  foreign origin. When the trimmed value holds a NUL, LF or CR, the \<open>Response\<close> constructor
  throws and the invocation yields a \<open>TypeError\<close> instead of a response.
\<close>

theorem fetch_result_configured_origin:
  assumes "ALLOWED_ORIGIN env = Some s" and "trim s \<noteq> []"
  shows "(valid_header_value (trim s) \<longrightarrow>
            (\<exists>r. fst (fetch_result env pf request m) = Inr r
                 \<and> r = fst (fetch env pf request m)
                 \<and> header r ''Access-Control-Allow-Origin'' = Some (trim s)))
       \<and> (\<not> valid_header_value (trim s) \<longrightarrow>
            fst (fetch_result env pf request m) = Inl TypeError)"
proof -
  have g: "getAllowedOrigin env (headers request ''Origin'') = trim s"
    using assms by (simp add: getAllowedOrigin_def)
  have n: "normalize_header_value (getAllowedOrigin env (headers request ''Origin''))
             = getAllowedOrigin env (headers request ''Origin'')"
    by (simp only: g normalize_trim)
  have "new_Response (fst (fetch env pf request m)) =
           (if valid_header_value (trim s) then Inr (fst (fetch env pf request m)) else Inl TypeError)"
    using new_Response_cors [OF fetch_headers n] by (simp only: g)
  then show ?thesis
    using header_allow_origin [of env pf request m]
    by (simp add: fetch_result_eq g)
qed

theorem fetch_result_configured_origin_witness:
  "(\<exists>r. fst (fetch_result env_restricted platform_sample foreign_request Map.empty) = Inr r
        \<and> status r = 403
        \<and> header r ''Access-Control-Allow-Origin'' = Some ''https://a.example'')
   \<and> (\<exists>r. fst (fetch_result env_restricted platform_sample preflight_request Map.empty) = Inr r
        \<and> status r = 204
        \<and> header r ''Access-Control-Allow-Origin'' = Some ''https://a.example'')
   \<and> fst (fetch_result env_line_feed platform_sample preflight_request Map.empty) = Inl TypeError"
proof -
  have a: "ALLOWED_ORIGIN env_restricted = Some '' https://a.example ''"
    by (simp add: env_restricted_def)
  have b: "trim '' https://a.example '' \<noteq> []"
    by (simp add: trim_sample)
  have v: "valid_header_value (trim '' https://a.example '')"
    by (simp add: trim_sample valid_header_value_def)
  have s1: "status (fst (fetch env_restricted platform_sample foreign_request Map.empty)) = 403"
    by (simp add: fetch_def foreign_request_def env_restricted_def trim_sample jsonResponse_def)
  have s2: "status (fst (fetch env_restricted platform_sample preflight_request Map.empty)) = 204"
    by (simp add: fetch_def preflight_request_def)
  have c: "ALLOWED_ORIGIN env_line_feed = Some origin_with_line_feed"
    by (simp add: env_line_feed_def)
  have d: "trim origin_with_line_feed \<noteq> []"
    by (simp add: line_feed_sample)
  have w: "\<not> valid_header_value (trim origin_with_line_feed)"
    by (simp add: line_feed_sample)
  show ?thesis
    using fetch_result_configured_origin [OF a b, of platform_sample foreign_request Map.empty]
          fetch_result_configured_origin [OF a b, of platform_sample preflight_request Map.empty]
          fetch_result_configured_origin [OF c d, of platform_sample preflight_request Map.empty]
          v w s1 s2
    by (simp add: trim_sample)
qed

text \<open>
  C10 as stated fails: for a configured origin with a line feed inside, which trimming
  leaves as it is, no request gets a response, neither the preflight nor the POST from a
  foreign origin: the invocation ends in the constructor's \<open>TypeError\<close>.
\<close>

theorem fetch_result_line_feed_counterexample:
  "ALLOWED_ORIGIN env_line_feed = Some origin_with_line_feed
   \<and> trim origin_with_line_feed = origin_with_line_feed
   \<and> origin_with_line_feed \<noteq> []
   \<and> CHR 0x0A \<in> set origin_with_line_feed
   \<and> fst (fetch_result env_line_feed platform_sample preflight_request Map.empty) = Inl TypeError
   \<and> fst (fetch_result env_line_feed platform_sample foreign_request Map.empty) = Inl TypeError"
proof -
  have c: "ALLOWED_ORIGIN env_line_feed = Some origin_with_line_feed"
    by (simp add: env_line_feed_def)
  have g: "getAllowedOrigin env_line_feed origin = origin_with_line_feed" for origin
    by (simp add: getAllowedOrigin_def c line_feed_sample)
  have n: "normalize_header_value (getAllowedOrigin env_line_feed origin)
             = getAllowedOrigin env_line_feed origin" for origin
    using normalize_trim [of origin_with_line_feed] by (simp add: g line_feed_sample)
  have "fst (fetch_result env_line_feed platform_sample request Map.empty) = Inl TypeError" for request
    using new_Response_cors [OF fetch_headers n, of platform_sample request Map.empty]
    by (simp add: fetch_result_eq g line_feed_sample)
  then show ?thesis
    by (simp add: c line_feed_sample)
qed


end
